theory Spec2Isabelle
  imports Main
begin

section \<open>Data model: the SQLite store of \<^verbatim>\<open>bot/database.py\<close>\<close>

text \<open>
  Python strings are sequences of Unicode code points; \<^verbatim>\<open>len\<close> and slicing count code
  points. A string is therefore a list of code points, and an ASCII literal is written
  through \<open>ascii\<close>.

  Timestamps are integers (microseconds). The store compares the text of
  \<^verbatim>\<open>created_at\<close> with the text of a Python \<^verbatim>\<open>datetime\<close>; on timestamps of the
  same calendar format that order is the order of the instants, which is what the integer
  comparison below stands for. The value the store writes for
  \<^verbatim>\<open>CURRENT_TIMESTAMP\<close> and the value of \<^verbatim>\<open>datetime.now()\<close> are
  parameters of the operations that read them.
\<close>

type_synonym pystr = "nat list"

definition ascii :: "string \<Rightarrow> pystr" where
  "ascii s = map of_char s"

record user_row =
  u_user_id :: int
  u_username :: "pystr option"
  u_mode :: pystr
  u_digest_time :: pystr
  u_language :: pystr

record channel_row =
  c_id :: int
  c_channel_username :: pystr
  c_channel_id :: int
  c_title :: pystr

record user_channel_row =
  uc_user_id :: int
  uc_channel_id :: int
  uc_added_at :: int

record post_row =
  p_id :: int
  p_channel_id :: int
  p_message_id :: int
  p_text :: pystr
  p_created_at :: int
  p_sent :: int

text \<open>
  The four tables, in row order, and the two \<^verbatim>\<open>AUTOINCREMENT\<close> sequences (the
  largest id handed out so far).
\<close>

record database =
  db_users :: "user_row list"
  db_channels :: "channel_row list"
  db_user_channels :: "user_channel_row list"
  db_posts :: "post_row list"
  db_channels_seq :: int
  db_posts_seq :: int

definition microseconds_per_hour :: int where
  "microseconds_per_hour = 3600 * 1000000"

definition microseconds_per_day :: int where
  "microseconds_per_day = 24 * microseconds_per_hour"

subsection \<open>Post operations\<close>

text \<open>
  \<^verbatim>\<open>add_post\<close>: the \<^verbatim>\<open>INSERT\<close> violates \<^verbatim>\<open>UNIQUE(channel_id, message_id)\<close>
  exactly when a row with that pair is stored; the \<^verbatim>\<open>IntegrityError\<close> is caught and
  \<^verbatim>\<open>None\<close> returned. The stored text is \<^verbatim>\<open>text[:500] if text else ""\<close>.
\<close>

definition post_exists :: "database \<Rightarrow> int \<Rightarrow> int \<Rightarrow> bool" where
  "post_exists db channel_id message_id =
     list_ex (\<lambda>p. p_channel_id p = channel_id \<and> p_message_id p = message_id) (db_posts db)"

definition add_post :: "database \<Rightarrow> int \<Rightarrow> int \<Rightarrow> int \<Rightarrow> pystr \<Rightarrow> database \<times> int option" where
  "add_post db ts channel_id message_id text =
     (if post_exists db channel_id message_id then (db, None)
      else
        (let lastrowid = db_posts_seq db + 1;
             row = \<lparr>p_id = lastrowid, p_channel_id = channel_id, p_message_id = message_id,
                    p_text = (if text \<noteq> [] then take 500 text else []),
                    p_created_at = ts, p_sent = 0\<rparr>
         in (db\<lparr>db_posts := db_posts db @ [row], db_posts_seq := lastrowid\<rparr>, Some lastrowid)))"

text \<open>
  \<^verbatim>\<open>cleanup_old_posts\<close>: \<^verbatim>\<open>DELETE FROM posts WHERE created_at < cutoff\<close> with
  \<^verbatim>\<open>cutoff = datetime.now() - timedelta(days=days)\<close>; the result is the row count.
\<close>

definition cleanup_old_posts :: "database \<Rightarrow> int \<Rightarrow> int \<Rightarrow> database \<times> int" where
  "cleanup_old_posts db now days =
     (let cutoff = now - days * microseconds_per_day
      in (db\<lparr>db_posts := filter (\<lambda>p. \<not> p_created_at p < cutoff) (db_posts db)\<rparr>,
          int (length (filter (\<lambda>p. p_created_at p < cutoff) (db_posts db)))))"

subsection \<open>User operations\<close>

definition get_or_create_user :: "database \<Rightarrow> int \<Rightarrow> pystr option \<Rightarrow> database \<times> user_row" where
  "get_or_create_user db user_id username =
     (case find (\<lambda>u. u_user_id u = user_id) (db_users db) of
        Some row \<Rightarrow> (db, row)
      | None \<Rightarrow>
          (let row = \<lparr>u_user_id = user_id, u_username = username, u_mode = ascii ''realtime'',
                      u_digest_time = ascii ''09:00'', u_language = ascii ''uz''\<rparr>
           in (db\<lparr>db_users := db_users db @ [row]\<rparr>, row)))"

definition get_users_for_digest :: "database \<Rightarrow> pystr \<Rightarrow> user_row list" where
  "get_users_for_digest db current_time =
     filter (\<lambda>u. u_mode u = ascii ''digest'' \<and> u_digest_time u = current_time) (db_users db)"

subsection \<open>Channel operations\<close>

text \<open>
  \<^verbatim>\<open>str.lower()\<close> on the letters of a channel handle: \<^verbatim>\<open>A\<close>..\<^verbatim>\<open>Z\<close> go to
  \<^verbatim>\<open>a\<close>..\<^verbatim>\<open>z\<close>, every other code point of a handle is left as it is.
  \<^verbatim>\<open>lstrip("@")\<close> drops every leading \<^verbatim>\<open>@\<close> (code point 64).
\<close>

definition lower :: "pystr \<Rightarrow> pystr" where
  "lower s = map (\<lambda>c. if 65 \<le> c \<and> c \<le> 90 then c + 32 else c) s"

definition lstrip_at :: "pystr \<Rightarrow> pystr" where
  "lstrip_at s = dropWhile (\<lambda>c. c = 64) s"

definition add_channel :: "database \<Rightarrow> pystr \<Rightarrow> int \<Rightarrow> pystr \<Rightarrow> database \<times> int" where
  "add_channel db channel_username channel_id title =
     (case find (\<lambda>c. c_channel_username c = lower channel_username) (db_channels db) of
        Some row \<Rightarrow>
          (db\<lparr>db_channels := map (\<lambda>c. if c_id c = c_id row
                                    then c\<lparr>c_channel_id := channel_id, c_title := title\<rparr> else c)
                               (db_channels db)\<rparr>,
           c_id row)
      | None \<Rightarrow>
          (let lastrowid = db_channels_seq db + 1;
               row = \<lparr>c_id = lastrowid, c_channel_username = lower channel_username,
                      c_channel_id = channel_id, c_title = title\<rparr>
           in (db\<lparr>db_channels := db_channels db @ [row], db_channels_seq := lastrowid\<rparr>, lastrowid)))"

definition get_channel_by_username :: "database \<Rightarrow> pystr \<Rightarrow> channel_row option" where
  "get_channel_by_username db channel_username =
     find (\<lambda>c. c_channel_username c = lower channel_username) (db_channels db)"

definition get_channel_by_id :: "database \<Rightarrow> int \<Rightarrow> channel_row option" where
  "get_channel_by_id db channel_id = find (\<lambda>c. c_channel_id c = channel_id) (db_channels db)"

subsection \<open>User-channel operations\<close>

definition user_has_channel :: "database \<Rightarrow> int \<Rightarrow> int \<Rightarrow> bool" where
  "user_has_channel db user_id channel_id =
     list_ex (\<lambda>uc. uc_user_id uc = user_id \<and> uc_channel_id uc = channel_id) (db_user_channels db)"

text \<open>
  \<^verbatim>\<open>add_user_channel\<close>: the \<^verbatim>\<open>INSERT\<close> violates the primary key
  \<^verbatim>\<open>(user_id, channel_id)\<close> exactly when the pair is stored; the
  \<^verbatim>\<open>IntegrityError\<close> is caught and \<^verbatim>\<open>False\<close> returned.
\<close>

definition add_user_channel :: "database \<Rightarrow> int \<Rightarrow> int \<Rightarrow> int \<Rightarrow> database \<times> bool" where
  "add_user_channel db ts user_id channel_id =
     (if user_has_channel db user_id channel_id then (db, False)
      else (db\<lparr>db_user_channels := db_user_channels db @
                  [\<lparr>uc_user_id = user_id, uc_channel_id = channel_id, uc_added_at = ts\<rparr>]\<rparr>, True))"

definition remove_user_channel :: "database \<Rightarrow> int \<Rightarrow> int \<Rightarrow> database \<times> bool" where
  "remove_user_channel db user_id channel_id =
     (db\<lparr>db_user_channels :=
           filter (\<lambda>uc. \<not> (uc_user_id uc = user_id \<and> uc_channel_id uc = channel_id))
                  (db_user_channels db)\<rparr>,
      0 < length (filter (\<lambda>uc. uc_user_id uc = user_id \<and> uc_channel_id uc = channel_id)
                         (db_user_channels db)))"

text \<open>
  \<^verbatim>\<open>get_channel_users\<close>: the join of \<^verbatim>\<open>user_channels\<close> with \<^verbatim>\<open>users\<close>, one row for
  every link of the channel whose user is stored, links taken in table order.
\<close>

definition get_channel_users :: "database \<Rightarrow> int \<Rightarrow> user_row list" where
  "get_channel_users db channel_db_id =
     concat (map (\<lambda>uc. filter (\<lambda>u. u_user_id u = uc_user_id uc) (db_users db))
                 (filter (\<lambda>uc. uc_channel_id uc = channel_db_id) (db_user_channels db)))"

subsection \<open>Digest queries\<close>

text \<open>A row of \<^verbatim>\<open>SELECT p.*, c.title as channel_title, c.channel_username\<close>.\<close>

record digest_row = post_row +
  dr_channel_title :: pystr
  dr_channel_username :: pystr

definition join_row :: "post_row \<Rightarrow> channel_row \<Rightarrow> digest_row" where
  "join_row p c =
     \<lparr>p_id = p_id p, p_channel_id = p_channel_id p, p_message_id = p_message_id p,
      p_text = p_text p, p_created_at = p_created_at p, p_sent = p_sent p,
      dr_channel_title = c_title c, dr_channel_username = c_channel_username c\<rparr>"

text \<open>
  \<^verbatim>\<open>get_unsent_posts_for_user\<close>: posts joined with their channel and with the user's link
  to it, newer than \<^verbatim>\<open>now - 24h\<close>, with \<^verbatim>\<open>sent = 0\<close>, ordered by
  \<^verbatim>\<open>created_at DESC\<close> (rows of equal \<^verbatim>\<open>created_at\<close> stay in table order).
\<close>

definition get_unsent_posts_for_user :: "database \<Rightarrow> int \<Rightarrow> int \<Rightarrow> digest_row list" where
  "get_unsent_posts_for_user db now user_id =
     (let yesterday = now - 24 * microseconds_per_hour
      in sort_key (\<lambda>r. - p_created_at r)
           (concat (map (\<lambda>p.
              concat (map (\<lambda>c.
                 map (\<lambda>uc. join_row p c)
                     (filter (\<lambda>uc. uc_channel_id uc = c_id c \<and> uc_user_id uc = user_id)
                             (db_user_channels db)))
                 (filter (\<lambda>c. c_id c = p_channel_id p) (db_channels db))))
              (filter (\<lambda>p. p_created_at p > yesterday \<and> p_sent p = 0) (db_posts db)))))"

definition mark_posts_sent :: "database \<Rightarrow> int list \<Rightarrow> database" where
  "mark_posts_sent db post_ids =
     (if post_ids = [] then db
      else db\<lparr>db_posts := map (\<lambda>p. if p_id p \<in> set post_ids then p\<lparr>p_sent := 1\<rparr> else p)
                            (db_posts db)\<rparr>)"

section \<open>Messages: \<^verbatim>\<open>bot/config.py\<close>\<close>

text \<open>
  The entries of \<^verbatim>\<open>MESSAGES\<close> that the watcher and the digest manager read, as code
  points. \<^verbatim>\<open>str.format\<close> is modelled for the templates of this table, whose only
  braces are a named field \<^verbatim>\<open>{name}\<close>.
\<close>

definition MESSAGES_uz :: "(pystr \<times> pystr) list" where
  "MESSAGES_uz =
     [(ascii ''no_posts'', [128237] @ ascii '' Oxirgi 24 soatda yangi postlar yo'' @ [39] @ ascii ''q.''),
      (ascii ''digest_header'', [128240] @ ascii '' <b>Oxirgi 24 soat xulosasi</b>'' @ [10, 10]),
      (ascii ''new_post'', [128226] @ ascii '' <b>{channel}</b> dan yangi post:'')]"

definition MESSAGES_ru :: "(pystr \<times> pystr) list" where
  "MESSAGES_ru =
     [(ascii ''no_posts'',
       [128237, 32, 1047, 1072, 32, 1087, 1086, 1089, 1083, 1077, 1076, 1085, 1080, 1077, 32, 50,
        52, 32, 1095, 1072, 1089, 1072, 32, 1085, 1086, 1074, 1099, 1093, 32, 1087, 1086, 1089,
        1090, 1086, 1074, 32, 1085, 1077, 1090, 46]),
      (ascii ''digest_header'',
       [128240, 32, 60, 98, 62, 1057, 1074, 1086, 1076, 1082, 1072, 32, 1079, 1072, 32, 50, 52,
        32, 1095, 1072, 1089, 1072, 60, 47, 98, 62, 10, 10]),
      (ascii ''new_post'',
       [128226, 32, 1053, 1086, 1074, 1099, 1081, 32, 1087, 1086, 1089, 1090, 32, 1086, 1090, 32,
        60, 98, 62, 123, 99, 104, 97, 110, 110, 101, 108, 125, 60, 47, 98, 62, 58])]"

definition MESSAGES :: "(pystr \<times> (pystr \<times> pystr) list) list" where
  "MESSAGES = [(ascii ''uz'', MESSAGES_uz), (ascii ''ru'', MESSAGES_ru)]"

function str_format :: "pystr \<Rightarrow> pystr \<Rightarrow> pystr \<Rightarrow> pystr" where
  "str_format name val [] = []"
| "str_format name val (c # cs) =
     (if c = 123 \<and> take (Suc (length name)) cs = name @ [125]
      then val @ str_format name val (drop (Suc (length name)) cs)
      else c # str_format name val cs)"
  by pat_completeness auto
termination
  by (relation "measure (\<lambda>(name, val, t). length t)") auto

definition get_message :: "pystr \<Rightarrow> pystr \<Rightarrow> (pystr \<times> pystr) option \<Rightarrow> pystr" where
  "get_message lang key kwargs =
     (let table = (case map_of MESSAGES lang of Some t \<Rightarrow> t | None \<Rightarrow> MESSAGES_uz);
          msg = (case map_of table key of
                   Some m \<Rightarrow> m
                 | None \<Rightarrow> (case map_of MESSAGES_uz key of Some m \<Rightarrow> m | None \<Rightarrow> key))
      in case kwargs of None \<Rightarrow> msg | Some (name, val) \<Rightarrow> str_format name val msg)"

section \<open>The transport and the state of the process\<close>

text \<open>
  The Telegram clients are outside the program. A call of \<^verbatim>\<open>client.get_entity\<close>,
  \<^verbatim>\<open>bot.send_message\<close> or \<^verbatim>\<open>bot.forward_messages\<close> returns or raises as the
  environment decides; the environment answers the \<open>n\<close>-th transport call of a run with
  its \<open>n\<close>-th reply, so successive attempts of one call may be answered differently. The two
  clocks (\<^verbatim>\<open>datetime.now()\<close> of the process, \<^verbatim>\<open>CURRENT_TIMESTAMP\<close> of the store) are
  read from the environment in the same way and do not advance between two transport calls.
\<close>

datatype exn = FloodWaitError nat | UsernameNotOccupiedError | ChannelPrivateError | OtherException

datatype entity = Channel int pystr | NotChannel

record env =
  env_get_entity :: "nat \<Rightarrow> exn + entity"
  env_send :: "nat \<Rightarrow> exn + unit"
  env_now :: "nat \<Rightarrow> int"
  env_current_timestamp :: "nat \<Rightarrow> int"

datatype level = Debug | Info | Warning | Error

text \<open>What a run does to the outside: transport calls, sleeps (in milliseconds), log records.\<close>

datatype effect =
    GetEntity pystr
  | SendMessage int pystr
  | ForwardMessages int int
  | Sleep nat
  | Log level

record world =
  w_db :: database
  w_watching_channels :: "int set"
  w_trace :: "effect list"
  w_calls :: nat

definition emit :: "effect \<Rightarrow> world \<Rightarrow> world" where
  "emit e w = w\<lparr>w_trace := w_trace w @ [e]\<rparr>"

definition transport_call :: "effect \<Rightarrow> world \<Rightarrow> world" where
  "transport_call e w = w\<lparr>w_trace := w_trace w @ [e], w_calls := Suc (w_calls w)\<rparr>"

definition bot_send_message :: "env \<Rightarrow> world \<Rightarrow> int \<Rightarrow> pystr \<Rightarrow> world \<times> (exn + unit)" where
  "bot_send_message env w user_id text =
     (transport_call (SendMessage user_id text) w, env_send env (w_calls w))"

definition bot_forward_messages :: "env \<Rightarrow> world \<Rightarrow> int \<Rightarrow> int \<Rightarrow> world \<times> (exn + unit)" where
  "bot_forward_messages env w user_id message_id =
     (transport_call (ForwardMessages user_id message_id) w, env_send env (w_calls w))"

section \<open>The watcher: \<^verbatim>\<open>bot/channel_watcher.py\<close>\<close>

record channel_info =
  ci_username :: pystr
  ci_channel_id :: int
  ci_title :: pystr

text \<open>
  \<^verbatim>\<open>resolve_channel\<close> calls itself after a \<^verbatim>\<open>FloodWaitError\<close>, so it need not return:
  the value \<open>None\<close> of the outer option stands for a run that never returns.
\<close>

partial_function (option) resolve_channel ::
  "env \<Rightarrow> world \<Rightarrow> pystr \<Rightarrow> (world \<times> channel_info option) option" where
  "resolve_channel env w username =
     (case env_get_entity env (w_calls w) of
        Inr (Channel cid title) \<Rightarrow>
          Some (transport_call (GetEntity (lstrip_at username)) w,
                Some \<lparr>ci_username = lstrip_at username, ci_channel_id = cid, ci_title = title\<rparr>)
      | Inr NotChannel \<Rightarrow>
          Some (emit (Log Warning) (transport_call (GetEntity (lstrip_at username)) w), None)
      | Inl UsernameNotOccupiedError \<Rightarrow>
          Some (emit (Log Warning) (transport_call (GetEntity (lstrip_at username)) w), None)
      | Inl ChannelPrivateError \<Rightarrow>
          Some (emit (Log Warning) (transport_call (GetEntity (lstrip_at username)) w), None)
      | Inl (FloodWaitError seconds) \<Rightarrow>
          resolve_channel env
            (emit (Sleep (1000 * seconds))
               (emit (Log Warning) (transport_call (GetEntity (lstrip_at username)) w)))
            (lstrip_at username)
      | Inl OtherException \<Rightarrow>
          Some (emit (Log Error) (transport_call (GetEntity (lstrip_at username)) w), None))"

definition add_channel_handler :: "world \<Rightarrow> int \<Rightarrow> world" where
  "add_channel_handler w channel_id =
     (if channel_id \<in> w_watching_channels w then w
      else emit (Log Debug) (w\<lparr>w_watching_channels := insert channel_id (w_watching_channels w)\<rparr>))"

definition remove_channel_handler :: "world \<Rightarrow> int \<Rightarrow> world" where
  "remove_channel_handler w channel_id =
     emit (Log Debug) (w\<lparr>w_watching_channels := w_watching_channels w - {channel_id}\<rparr>)"

definition add_channel_for_user ::
  "env \<Rightarrow> world \<Rightarrow> int \<Rightarrow> pystr \<Rightarrow> (world \<times> bool \<times> pystr) option" where
  "add_channel_for_user env w user_id channel_username =
     (let w1 = w\<lparr>w_db := fst (get_or_create_user (w_db w) user_id None)\<rparr>;
          existing = get_channel_by_username (w_db w1) channel_username
      in if (case existing of
               Some c \<Rightarrow> user_has_channel (w_db w1) user_id (c_id c)
             | None \<Rightarrow> False)
         then Some (w1, False, ascii ''channel_already_added'')
         else
           (case resolve_channel env w1 channel_username of
              None \<Rightarrow> None
            | Some (w2, None) \<Rightarrow> Some (w2, False, ascii ''channel_not_found'')
            | Some (w2, Some info) \<Rightarrow>
                (let (db3, channel_db_id) =
                       add_channel (w_db w2) (ci_username info) (ci_channel_id info) (ci_title info);
                     (db4, added) =
                       add_user_channel db3 (env_current_timestamp env (w_calls w2))
                         user_id channel_db_id
                 in if \<not> added then Some (w2\<lparr>w_db := db4\<rparr>, False, ascii ''channel_already_added'')
                    else Some (emit (Log Info)
                                 (add_channel_handler (w2\<lparr>w_db := db4\<rparr>) (ci_channel_id info)),
                               True, ci_title info))))"

definition remove_channel_for_user :: "world \<Rightarrow> int \<Rightarrow> pystr \<Rightarrow> world \<times> bool \<times> pystr" where
  "remove_channel_for_user w user_id channel_username =
     (case get_channel_by_username (w_db w) (lstrip_at channel_username) of
        None \<Rightarrow> (w, False, ascii ''channel_not_in_list'')
      | Some channel \<Rightarrow>
          (let (db1, removed) = remove_user_channel (w_db w) user_id (c_id channel);
               w1 = w\<lparr>w_db := db1\<rparr>
           in if \<not> removed then (w1, False, ascii ''channel_not_in_list'')
              else
                (let remaining_users = get_channel_users db1 (c_id channel);
                     w2 = (if remaining_users = []
                           then remove_channel_handler w1 (c_channel_id channel) else w1)
                 in (emit (Log Info) w2, True, c_title channel))))"

text \<open>
  An incoming event: what \<^verbatim>\<open>event.get_chat()\<close> gives (or raises), and the message's
  id, text and caption.
\<close>

record new_message =
  ev_get_chat :: "exn + entity"
  ev_message_id :: int
  ev_text :: "pystr option"
  ev_caption :: "pystr option"

text \<open>\<^verbatim>\<open>event.message.text or event.message.caption or ""\<close>\<close>

definition message_text :: "new_message \<Rightarrow> pystr" where
  "message_text ev =
     (let rest = (case ev_caption ev of Some s \<Rightarrow> (if s \<noteq> [] then s else []) | None \<Rightarrow> [])
      in case ev_text ev of Some s \<Rightarrow> (if s \<noteq> [] then s else rest) | None \<Rightarrow> rest)"

text \<open>
  \<^verbatim>\<open>_send_realtime\<close>: the body of the \<^verbatim>\<open>try\<close> stops at the first call that raises; the
  two handlers turn every exception into a log record. The second component of the result
  is the exception that leaves the function, if any.
\<close>

definition send_realtime_body ::
  "env \<Rightarrow> world \<Rightarrow> int \<Rightarrow> new_message \<Rightarrow> channel_row \<Rightarrow> pystr \<Rightarrow> world \<times> exn option" where
  "send_realtime_body env w user_id ev channel lang =
     (let header = get_message lang (ascii ''new_post'') (Some (ascii ''channel'', c_title channel))
      in case bot_send_message env w user_id header of
           (w1, Inl e) \<Rightarrow> (w1, Some e)
         | (w1, Inr _) \<Rightarrow>
             (case bot_forward_messages env w1 user_id (ev_message_id ev) of
                (w2, Inl e) \<Rightarrow> (w2, Some e)
              | (w2, Inr _) \<Rightarrow> (emit (Sleep 100) w2, None)))"

definition send_realtime ::
  "env \<Rightarrow> world \<Rightarrow> int \<Rightarrow> new_message \<Rightarrow> channel_row \<Rightarrow> pystr \<Rightarrow> world \<times> exn option" where
  "send_realtime env w user_id ev channel lang =
     (case send_realtime_body env w user_id ev channel lang of
        (w1, Some (FloodWaitError seconds)) \<Rightarrow>
          (emit (Sleep (1000 * seconds)) (emit (Log Warning) w1), None)
      | (w1, Some e) \<Rightarrow> (emit (Log Error) w1, None)
      | (w1, None) \<Rightarrow> (w1, None))"

text \<open>
  The loop over the subscribers in \<^verbatim>\<open>handle_new_message\<close>. An exception that leaves
  an iteration ends the loop.
\<close>

fun fan_out ::
  "env \<Rightarrow> new_message \<Rightarrow> channel_row \<Rightarrow> world \<Rightarrow> user_row list \<Rightarrow> world \<times> exn option" where
  "fan_out env ev channel w [] = (w, None)"
| "fan_out env ev channel w (user # rest) =
     (if u_mode user = ascii ''off'' then fan_out env ev channel w rest
      else if u_mode user = ascii ''realtime'' then
        (case send_realtime env w (u_user_id user) ev channel (u_language user) of
           (w1, Some e) \<Rightarrow> (w1, Some e)
         | (w1, None) \<Rightarrow> fan_out env ev channel w1 rest)
      else if u_mode user = ascii ''digest'' then
        fan_out env ev channel
          (w\<lparr>w_db := fst (add_post (w_db w) (env_current_timestamp env (w_calls w))
                             (c_id channel) (ev_message_id ev) (message_text ev))\<rparr>)
          rest
      else fan_out env ev channel w rest)"

definition handle_new_message_body :: "env \<Rightarrow> world \<Rightarrow> new_message \<Rightarrow> world \<times> exn option" where
  "handle_new_message_body env w ev =
     (case ev_get_chat ev of
        Inl e \<Rightarrow> (w, Some e)
      | Inr NotChannel \<Rightarrow> (w, None)
      | Inr (Channel channel_id title) \<Rightarrow>
          (if channel_id \<notin> w_watching_channels w then (w, None)
           else
             (case get_channel_by_id (w_db w) channel_id of
                None \<Rightarrow> (w, None)
              | Some channel \<Rightarrow>
                  fan_out env ev channel w (get_channel_users (w_db w) (c_id channel)))))"

definition handle_new_message :: "env \<Rightarrow> world \<Rightarrow> new_message \<Rightarrow> world \<times> exn option" where
  "handle_new_message env w ev =
     (case handle_new_message_body env w ev of
        (w1, Some e) \<Rightarrow> (emit (Log Error) w1, None)
      | (w1, None) \<Rightarrow> (w1, None))"

section \<open>The digest manager: \<^verbatim>\<open>bot/digest.py\<close>\<close>

text \<open>\<^verbatim>\<open>str(n)\<close> of a length: the decimal digits.\<close>

fun str_nat :: "nat \<Rightarrow> pystr" where
  "str_nat n = (if n < 10 then [48 + n] else str_nat (n div 10) @ [48 + n mod 10])"

declare str_nat.simps [simp del]

text \<open>
  The dictionary \<^verbatim>\<open>channels\<close> keeps its keys in insertion order: an association list,
  a new title appended at the end, a post appended to the list of its title.
\<close>

definition group_step ::
  "(pystr \<times> digest_row list) list \<Rightarrow> digest_row \<Rightarrow> (pystr \<times> digest_row list) list" where
  "group_step channels post =
     (let channels1 = (if dr_channel_title post \<notin> set (map fst channels)
                       then channels @ [(dr_channel_title post, [])] else channels)
      in map (\<lambda>(title, channel_posts).
                if title = dr_channel_title post then (title, channel_posts @ [post])
                else (title, channel_posts))
             channels1)"

fun group_posts ::
  "(pystr \<times> digest_row list) list \<Rightarrow> digest_row list \<Rightarrow> (pystr \<times> digest_row list) list" where
  "group_posts channels [] = channels"
| "group_posts channels (post # rest) = group_posts (group_step channels post) rest"

text \<open>The inner loop, over \<^verbatim>\<open>channel_posts[:5]\<close>, appending to \<^verbatim>\<open>message\<close>.\<close>

fun post_loop :: "pystr \<Rightarrow> digest_row list \<Rightarrow> pystr" where
  "post_loop message [] = message"
| "post_loop message (post # rest) =
     (let text = p_text post;
          text1 = (if length text > 100 then take 100 text @ ascii ''...'' else text)
      in post_loop (if text1 \<noteq> [] then message @ [32, 32, 8226, 32] @ text1 @ [10] else message)
           rest)"

text \<open>The outer loop, over \<^verbatim>\<open>channels.items()\<close>.\<close>

fun channel_loop :: "pystr \<Rightarrow> (pystr \<times> digest_row list) list \<Rightarrow> pystr" where
  "channel_loop message [] = message"
| "channel_loop message ((title, channel_posts) # rest) =
     (let message1 = message @ [128226] @ ascii '' <b>'' @ title @ ascii ''</b> (''
                       @ str_nat (length channel_posts) @ ascii '' ta post)'' @ [10];
          message2 = post_loop message1 (take 5 channel_posts);
          message3 = (if length channel_posts > 5
                      then message2 @ ascii ''  <i>...va yana ''
                             @ str_nat (length channel_posts - 5) @ ascii '' ta</i>'' @ [10]
                      else message2)
      in channel_loop (message3 @ [10]) rest)"

definition digest_message :: "pystr \<Rightarrow> digest_row list \<Rightarrow> pystr" where
  "digest_message lang posts =
     channel_loop (get_message lang (ascii ''digest_header'') None) (group_posts [] posts)"

text \<open>
  \<^verbatim>\<open>send_digest_to_user\<close>: the body of the \<^verbatim>\<open>try\<close>, then the two handlers.
\<close>

definition send_digest_body :: "env \<Rightarrow> world \<Rightarrow> int \<Rightarrow> pystr \<Rightarrow> world \<times> exn option" where
  "send_digest_body env w user_id lang =
     (let posts = get_unsent_posts_for_user (w_db w) (env_now env (w_calls w)) user_id
      in if posts = [] then (w, None)
         else
           (case bot_send_message env w user_id (digest_message lang posts) of
              (w1, Inl e) \<Rightarrow> (w1, Some e)
            | (w1, Inr _) \<Rightarrow>
                (emit (Log Info) (w1\<lparr>w_db := mark_posts_sent (w_db w1) (map p_id posts)\<rparr>),
                 None)))"

definition send_digest_to_user :: "env \<Rightarrow> world \<Rightarrow> int \<Rightarrow> pystr \<Rightarrow> world \<times> exn option" where
  "send_digest_to_user env w user_id lang =
     (case send_digest_body env w user_id lang of
        (w1, Some (FloodWaitError seconds)) \<Rightarrow>
          (emit (Sleep (1000 * seconds)) (emit (Log Warning) w1), None)
      | (w1, Some e) \<Rightarrow> (emit (Log Error) w1, None)
      | (w1, None) \<Rightarrow> (w1, None))"

text \<open>
  \<^verbatim>\<open>send_manual_digest\<close> has no \<^verbatim>\<open>try\<close>: an exception of the notice's
  \<^verbatim>\<open>send_message\<close> leaves the function (\<open>Inl\<close>); otherwise the result is the returned
  boolean.
\<close>

definition send_manual_digest :: "env \<Rightarrow> world \<Rightarrow> int \<Rightarrow> pystr \<Rightarrow> world \<times> (exn + bool)" where
  "send_manual_digest env w user_id lang =
     (let posts = get_unsent_posts_for_user (w_db w) (env_now env (w_calls w)) user_id
      in if posts = [] then
           (case bot_send_message env w user_id (get_message lang (ascii ''no_posts'') None) of
              (w1, Inl e) \<Rightarrow> (w1, Inl e)
            | (w1, Inr _) \<Rightarrow> (w1, Inr False))
         else
           (case send_digest_to_user env w user_id lang of
              (w1, Some e) \<Rightarrow> (w1, Inl e)
            | (w1, None) \<Rightarrow> (w1, Inr True)))"

text \<open>
  One iteration of the loop of \<^verbatim>\<open>_scheduler\<close>, for the wall-clock minute
  \<^verbatim>\<open>current_time\<close>. An exception that leaves an iteration of the loop over the users
  ends that loop and reaches the handler of the tick.
\<close>

fun digest_loop :: "env \<Rightarrow> world \<Rightarrow> user_row list \<Rightarrow> world \<times> exn option" where
  "digest_loop env w [] = (w, None)"
| "digest_loop env w (user # rest) =
     (case send_digest_to_user env w (u_user_id user) (u_language user) of
        (w1, Some e) \<Rightarrow> (w1, Some e)
      | (w1, None) \<Rightarrow> digest_loop env w1 rest)"

definition scheduler_tick_body :: "env \<Rightarrow> world \<Rightarrow> pystr \<Rightarrow> world \<times> exn option" where
  "scheduler_tick_body env w current_time =
     (case digest_loop env w (get_users_for_digest (w_db w) current_time) of
        (w1, Some e) \<Rightarrow> (w1, Some e)
      | (w1, None) \<Rightarrow>
          (let w2 = (if current_time = ascii ''00:00'' then
                       (let (db1, deleted) =
                              cleanup_old_posts (w_db w1) (env_now env (w_calls w1)) 7
                        in if deleted \<noteq> 0 then emit (Log Info) (w1\<lparr>w_db := db1\<rparr>)
                           else w1\<lparr>w_db := db1\<rparr>)
                     else w1)
           in (emit (Sleep 60000) w2, None)))"

definition scheduler_tick :: "env \<Rightarrow> world \<Rightarrow> pystr \<Rightarrow> world" where
  "scheduler_tick env w current_time =
     (case scheduler_tick_body env w current_time of
        (w1, Some e) \<Rightarrow> emit (Sleep 60000) (emit (Log Error) w1)
      | (w1, None) \<Rightarrow> w1)"

section \<open>Schema constraints and concrete stores\<close>

text \<open>The schema's \<^verbatim>\<open>UNIQUE(channel_id, message_id)\<close> constraint on \<^verbatim>\<open>posts\<close>.\<close>

definition posts_unique :: "database \<Rightarrow> bool" where
  "posts_unique db = distinct (map (\<lambda>p. (p_channel_id p, p_message_id p)) (db_posts db))"

definition count_posts :: "database \<Rightarrow> int \<Rightarrow> int \<Rightarrow> nat" where
  "count_posts db channel_id message_id =
     length (filter (\<lambda>p. p_channel_id p = channel_id \<and> p_message_id p = message_id) (db_posts db))"

definition empty_db :: database where
  "empty_db = \<lparr>db_users = [], db_channels = [], db_user_channels = [], db_posts = [],
               db_channels_seq = 0, db_posts_seq = 0\<rparr>"

definition retention_db :: database where
  "retention_db = empty_db\<lparr>db_posts :=
     [\<lparr>p_id = 1, p_channel_id = 1, p_message_id = 10, p_text = ascii ''old'',
       p_created_at = 2 * microseconds_per_day, p_sent = 0\<rparr>,
      \<lparr>p_id = 2, p_channel_id = 1, p_message_id = 11, p_text = ascii ''old sent'',
       p_created_at = 2 * microseconds_per_day, p_sent = 1\<rparr>,
      \<lparr>p_id = 3, p_channel_id = 1, p_message_id = 12, p_text = ascii ''new'',
       p_created_at = 9 * microseconds_per_day, p_sent = 1\<rparr>],
     db_posts_seq := 3\<rparr>"

section \<open>Theorems\<close>

lemma count_posts_zero: "\<not> post_exists db c m \<Longrightarrow> count_posts db c m = 0"
  by (simp add: post_exists_def count_posts_def list_ex_iff filter_empty_conv)

lemma distinct_map_filter_le1:
  "distinct (map f xs) \<Longrightarrow> length (filter (\<lambda>x. f x = k) xs) \<le> 1"
proof (induction xs)
  case Nil
  then show ?case by simp
next
  case (Cons x xs)
  show ?case
  proof (cases "f x = k")
    case True
    from Cons.prems have "f x \<notin> f ` set xs" by simp
    then have "\<forall>y\<in>set xs. f y \<noteq> f x" by (metis imageI)
    with True have "filter (\<lambda>y. f y = k) xs = []"
      by (simp add: filter_empty_conv)
    with True show ?thesis by simp
  next
    case False
    with Cons show ?thesis by simp
  qed
qed

lemma count_posts_exists_unique:
  assumes "posts_unique db" and "post_exists db c m"
  shows "count_posts db c m = 1"
proof -
  have "count_posts db c m \<le> 1"
    using assms(1) distinct_map_filter_le1 [of "\<lambda>p. (p_channel_id p, p_message_id p)" "db_posts db" "(c, m)"]
    by (simp add: posts_unique_def count_posts_def)
  moreover have "count_posts db c m \<noteq> 0"
    using assms(2) by (auto simp: post_exists_def count_posts_def list_ex_iff filter_empty_conv)
  ultimately show ?thesis by simp
qed

text \<open>
  C1. Ingestion is idempotent. On a store that satisfies the schema's uniqueness
  constraint, two calls of \<open>add_post\<close> with the same channel and message id (whatever
  the two texts and the two insertion times are) leave exactly one post with that pair;
  the second call returns \<open>None\<close> and leaves the store as the first call left it.
\<close>

theorem add_post_idempotent:
  assumes "posts_unique db"
    and "add_post db ts channel_id message_id text = (db1, r1)"
    and "add_post db1 ts' channel_id message_id text' = (db2, r2)"
  shows "r2 = None \<and> db2 = db1 \<and> count_posts db2 channel_id message_id = 1
       \<and> posts_unique db2"
proof (cases "post_exists db channel_id message_id")
  case True
  with assms(2) have d1: "db1 = db" by (simp add: add_post_def)
  from True assms(3) have d2: "r2 = None" "db2 = db"
    unfolding d1 by (simp_all add: add_post_def)
  have "count_posts db channel_id message_id = 1"
    using assms(1) True by (rule count_posts_exists_unique)
  with d1 d2 assms(1) show ?thesis by simp
next
  case False
  let ?row = "\<lparr>p_id = db_posts_seq db + 1, p_channel_id = channel_id, p_message_id = message_id,
                p_text = (if text \<noteq> [] then take 500 text else []),
                p_created_at = ts, p_sent = 0\<rparr>"
  from False assms(2) have db1: "db1 = db\<lparr>db_posts := db_posts db @ [?row], db_posts_seq := db_posts_seq db + 1\<rparr>"
    by (simp add: add_post_def Let_def)
  then have ex1: "post_exists db1 channel_id message_id"
    by (simp add: post_exists_def list_ex_iff)
  with assms(3) have r: "r2 = None" "db2 = db1"
    by (simp_all add: add_post_def)
  from False have "(channel_id, message_id) \<notin> set (map (\<lambda>p. (p_channel_id p, p_message_id p)) (db_posts db))"
    by (auto simp: post_exists_def list_ex_iff)
  with assms(1) db1 have "posts_unique db1"
    by (simp add: posts_unique_def)
  with ex1 r show ?thesis
    by (simp add: count_posts_exists_unique)
qed

theorem add_post_idempotent_witness:
  "posts_unique empty_db
   \<and> snd (add_post (fst (add_post empty_db 10 7 42 (ascii ''hello''))) 20 7 42 (ascii ''again'')) = None
   \<and> count_posts (fst (add_post (fst (add_post empty_db 10 7 42 (ascii ''hello''))) 20 7 42 (ascii ''again''))) 7 42 = 1"
proof -
  have u: "posts_unique empty_db"
    by (simp add: posts_unique_def empty_db_def)
  note t = add_post_idempotent [OF u surjective_pairing surjective_pairing,
        of 10 7 42 "ascii ''hello''" 20 "ascii ''again''"]
  from t have a: "snd (add_post (fst (add_post empty_db 10 7 42 (ascii ''hello''))) 20 7 42 (ascii ''again'')) = None"
    by (rule conjunct1)
  from t have b: "count_posts (fst (add_post (fst (add_post empty_db 10 7 42 (ascii ''hello''))) 20 7 42 (ascii ''again''))) 7 42 = 1"
    by (elim conjE)
  from u a b show ?thesis by (intro conjI)
qed

text \<open>
  C8. Retention purge. \<open>cleanup_old_posts\<close> with a window of 7 days keeps exactly the posts
  whose \<open>created_at\<close> is not older than 7 days before \<open>now\<close>, in their order, whatever
  their \<open>sent\<close> flag is; the returned count is the number of rows removed, and no other
  table changes.
\<close>

theorem cleanup_old_posts_retention:
  assumes "cleanup_old_posts db now 7 = (db1, n)"
  shows "db_posts db1 = filter (\<lambda>p. \<not> p_created_at p < now - 7 * microseconds_per_day) (db_posts db)
       \<and> (\<forall>p \<in> set (db_posts db).
             (p \<in> set (db_posts db1)) = (\<not> p_created_at p < now - 7 * microseconds_per_day))
       \<and> n = int (length (db_posts db)) - int (length (db_posts db1))
       \<and> db_users db1 = db_users db \<and> db_channels db1 = db_channels db
       \<and> db_user_channels db1 = db_user_channels db"
proof -
  let ?old = "\<lambda>p. p_created_at p < now - 7 * microseconds_per_day"
  from assms have d: "db1 = db\<lparr>db_posts := filter (\<lambda>p. \<not> ?old p) (db_posts db)\<rparr>"
    and n: "n = int (length (filter ?old (db_posts db)))"
    by (simp_all add: cleanup_old_posts_def Let_def)
  have "length (filter ?old (db_posts db)) + length (filter (\<lambda>p. \<not> ?old p) (db_posts db))
        = length (db_posts db)"
    by (rule sum_length_filter_compl)
  with n d have "n = int (length (db_posts db)) - int (length (db_posts db1))"
    by simp
  with d show ?thesis by simp
qed

theorem cleanup_old_posts_retention_witness:
  "cleanup_old_posts retention_db (10 * microseconds_per_day) 7
     = (retention_db\<lparr>db_posts := [\<lparr>p_id = 3, p_channel_id = 1, p_message_id = 12,
           p_text = ascii ''new'', p_created_at = 9 * microseconds_per_day, p_sent = 1\<rparr>]\<rparr>, 2)
   \<and> (\<forall>p \<in> set (db_posts retention_db).
         (p \<in> set [\<lparr>p_id = 3, p_channel_id = 1, p_message_id = 12,
           p_text = ascii ''new'', p_created_at = 9 * microseconds_per_day, p_sent = 1\<rparr>])
         = (\<not> p_created_at p < 10 * microseconds_per_day - 7 * microseconds_per_day))"
proof -
  have e: "cleanup_old_posts retention_db (10 * microseconds_per_day) 7
     = (retention_db\<lparr>db_posts := [\<lparr>p_id = 3, p_channel_id = 1, p_message_id = 12,
           p_text = ascii ''new'', p_created_at = 9 * microseconds_per_day, p_sent = 1\<rparr>]\<rparr>, 2)"
    by (simp add: cleanup_old_posts_def retention_db_def empty_db_def Let_def
          microseconds_per_day_def microseconds_per_hour_def)
  from cleanup_old_posts_retention [OF e] e show ?thesis by simp
qed

end
